theory Spec2Isabelle
  imports Main
begin

section \<open>The auction operator (operator.ts)\<close>

text \<open>
  The operator script polls an auction contract and drives it through its lifecycle.
  The contract is external: the model takes it as a parameter (an oracle over an
  arbitrary world state), so that every theorem holds for every behaviour of the
  ledger, failures included.
\<close>

subsection \<open>Configuration\<close>

text \<open>
  \<^verbatim>\<open>process.env\<close> is a map from variable names to strings. \<^verbatim>\<open>process.env.X || d\<close>
  is \<open>d\<close> when the variable is unset or the empty string.
\<close>

type_synonym env = "string \<rightharpoonup> string"

definition or_default :: "string option \<Rightarrow> string \<Rightarrow> string" where
  "or_default v d = (case v of None \<Rightarrow> d | Some x \<Rightarrow> if x = [] then d else x)"

definition PROVIDER_WS :: "env \<Rightarrow> string" where
  "PROVIDER_WS env = or_default (env ''PROVIDER_WS'') ''wss://your.websocket.provider''"

definition PRIVATE_KEY :: "env \<Rightarrow> string" where
  "PRIVATE_KEY env = or_default (env ''PRIVATE_KEY'') []"

definition CONTRACT_ADDRESS :: "env \<Rightarrow> string" where
  "CONTRACT_ADDRESS env = or_default (env ''CONTRACT_ADDRESS'') []"

text \<open>
  \<^verbatim>\<open>ethers.utils.parseUnits(value, decimals)\<close> on a string of decimal digits (the only
  use the script makes of it): the number read, scaled by \<open>10 ^ decimals\<close>.
\<close>

definition digit_val :: "char \<Rightarrow> nat" where
  "digit_val ch = of_char ch - 48"

definition parseUnits :: "string \<Rightarrow> nat \<Rightarrow> int" where
  "parseUnits v decimals = int (foldl (\<lambda>acc ch. 10 * acc + digit_val ch) 0 v) * 10 ^ decimals"

definition NEW_AUCTION_START_PRICE :: int where
  "NEW_AUCTION_START_PRICE = parseUnits ''100'' 18"

definition NEW_AUCTION_END_PRICE :: int where
  "NEW_AUCTION_END_PRICE = parseUnits ''10'' 18"

text \<open>The polling interval in milliseconds: a constant, no environment variable is read.\<close>

definition POLL_INTERVAL :: nat where
  "POLL_INTERVAL = 15 * 1000"

text \<open>The module-level constants, as the script computes them from an environment.\<close>

record config =
  provider_ws :: string
  private_key :: string
  contract_address :: string
  new_auction_start_price :: int
  new_auction_end_price :: int
  poll_interval :: nat

definition load_config :: "env \<Rightarrow> config" where
  "load_config env =
     \<lparr> provider_ws = PROVIDER_WS env,
       private_key = PRIVATE_KEY env,
       contract_address = CONTRACT_ADDRESS env,
       new_auction_start_price = NEW_AUCTION_START_PRICE,
       new_auction_end_price = NEW_AUCTION_END_PRICE,
       poll_interval = POLL_INTERVAL \<rparr>"

text \<open>\<^verbatim>\<open>ethers.constants.AddressZero\<close>: the 20-byte zero address as a hex string.\<close>

definition AddressZero :: string where
  "AddressZero = ''0x0000000000000000000000000000000000000000''"

subsection \<open>Data read from and sent to the contract\<close>

text \<open>A JavaScript error value, with its message.\<close>

datatype error = Error string

text \<open>\<^verbatim>\<open>getWinnerInfo()\<close> returns (winner, winningBid, winningTokenId).\<close>

record winner_info =
  winner :: string
  winningBid :: int
  winningTokenId :: int

text \<open>\<^verbatim>\<open>getAdminState()\<close> returns (proofSubmitted, claimed, ended).\<close>

record admin_state =
  proofSubmitted :: bool
  claimed :: bool
  ended :: bool

text \<open>
  A transaction response: the script reads its \<^verbatim>\<open>hash\<close> and calls its \<^verbatim>\<open>wait()\<close>.
\<close>

record tx =
  hash :: string

text \<open>The four state-changing functions of the contract, with their arguments.\<close>

datatype action =
    EndAuctionNoBids
  | StartAuction int int
  | SubmitProof int string
  | ClaimPayment int

text \<open>
  A line of console output is a template literal: fixed text with values spliced in.
  \<open>Units v d\<close> stands for \<^verbatim>\<open>ethers.utils.formatUnits(v, d)\<close>, \<open>Num v\<close> for
  \<^verbatim>\<open>v.toString()\<close> and \<open>Str s\<close> for a string value.
\<close>

datatype piece = Text string | Units int nat | Num int | Str string

subsection \<open>Asynchronous procedures\<close>

text \<open>
  An async function is a tree of its effects: at every \<^verbatim>\<open>await\<close> of a contract call
  the procedure is suspended and continues with the settled result (\<open>Inl\<close> a rejection,
  \<open>Inr\<close> a value). The same tree is run against an oracle (one cycle, below) and by
  the event loop (interleaved cycles, further below).
\<close>

datatype proc =
    Await_getAuctionState "error + int \<times> bool \<times> int \<Rightarrow> proc"
  | Await_getWinnerInfo "error + winner_info \<Rightarrow> proc"
  | Await_getAdminState "error + admin_state \<Rightarrow> proc"
  | Await_send action "error + tx \<Rightarrow> proc"
  | Await_wait tx "error + unit \<Rightarrow> proc"
  | Console_log "piece list" proc
  | Console_error string error proc
  | Contract_on string proc
  | Set_interval proc nat proc
  | Process_exit nat
  | Throw error
  | Return

text \<open>\<^verbatim>\<open>await\<close> of a rejected promise throws; otherwise the code goes on with the value.\<close>

definition settled :: "('a \<Rightarrow> proc) \<Rightarrow> error + 'a \<Rightarrow> proc" where
  "settled k r = (case r of Inl e \<Rightarrow> Throw e | Inr v \<Rightarrow> k v)"

definition await_getAuctionState :: "(int \<times> bool \<times> int \<Rightarrow> proc) \<Rightarrow> proc" where
  "await_getAuctionState k = Await_getAuctionState (settled k)"

definition await_getWinnerInfo :: "(winner_info \<Rightarrow> proc) \<Rightarrow> proc" where
  "await_getWinnerInfo k = Await_getWinnerInfo (settled k)"

definition await_getAdminState :: "(admin_state \<Rightarrow> proc) \<Rightarrow> proc" where
  "await_getAdminState k = Await_getAdminState (settled k)"

definition await_send :: "action \<Rightarrow> (tx \<Rightarrow> proc) \<Rightarrow> proc" where
  "await_send a k = Await_send a (settled k)"

definition await_wait :: "tx \<Rightarrow> proc \<Rightarrow> proc" where
  "await_wait t p = Await_wait t (settled (\<lambda>_. p))"

text \<open>\<^verbatim>\<open>try { body } catch (error) { handler }\<close>: every throw of the body runs the handler.\<close>

primrec try_catch :: "proc \<Rightarrow> (error \<Rightarrow> proc) \<Rightarrow> proc" where
  "try_catch (Await_getAuctionState k) h = Await_getAuctionState (\<lambda>r. try_catch (k r) h)"
| "try_catch (Await_getWinnerInfo k) h = Await_getWinnerInfo (\<lambda>r. try_catch (k r) h)"
| "try_catch (Await_getAdminState k) h = Await_getAdminState (\<lambda>r. try_catch (k r) h)"
| "try_catch (Await_send a k) h = Await_send a (\<lambda>r. try_catch (k r) h)"
| "try_catch (Await_wait t k) h = Await_wait t (\<lambda>r. try_catch (k r) h)"
| "try_catch (Console_log m p) h = Console_log m (try_catch p h)"
| "try_catch (Console_error m e p) h = Console_error m e (try_catch p h)"
| "try_catch (Contract_on n p) h = Contract_on n (try_catch p h)"
| "try_catch (Set_interval cb ms p) h = Set_interval cb ms (try_catch p h)"
| "try_catch (Process_exit n) h = Process_exit n"
| "try_catch (Throw e) h = h e"
| "try_catch Return h = Return"

text \<open>Sequencing: \<open>then_proc p q\<close> runs \<open>q\<close> where \<open>p\<close> returns; a throw of \<open>p\<close> goes on up.\<close>

primrec then_proc :: "proc \<Rightarrow> proc \<Rightarrow> proc" where
  "then_proc (Await_getAuctionState k) q = Await_getAuctionState (\<lambda>r. then_proc (k r) q)"
| "then_proc (Await_getWinnerInfo k) q = Await_getWinnerInfo (\<lambda>r. then_proc (k r) q)"
| "then_proc (Await_getAdminState k) q = Await_getAdminState (\<lambda>r. then_proc (k r) q)"
| "then_proc (Await_send a k) q = Await_send a (\<lambda>r. then_proc (k r) q)"
| "then_proc (Await_wait t k) q = Await_wait t (\<lambda>r. then_proc (k r) q)"
| "then_proc (Console_log m p) q = Console_log m (then_proc p q)"
| "then_proc (Console_error m e p) q = Console_error m e (then_proc p q)"
| "then_proc (Contract_on n p) q = Contract_on n (then_proc p q)"
| "then_proc (Set_interval cb ms p) q = Set_interval cb ms (then_proc p q)"
| "then_proc (Process_exit n) q = Process_exit n"
| "then_proc (Throw e) q = Throw e"
| "then_proc Return q = q"

subsection \<open>checkAuctionStatus\<close>

text \<open>The zeroed bytes32 value: \<^verbatim>\<open>"0x" + "0".repeat(64)\<close>.\<close>

definition zeroProof :: string where
  "zeroProof = ''0x'' @ replicate 64 (CHR ''0'')"

definition called :: "string \<Rightarrow> tx \<Rightarrow> piece list" where
  "called f t = [Text (f @ ''() called. Tx Hash: ''), Str (hash t)]"

definition checkAuctionStatus :: proc where
  "checkAuctionStatus =
     try_catch
       (await_getAuctionState (\<lambda>(currentPrice, isActive, timeRemaining).
          if isActive then
            Console_log [Text ''Auction is active. Current price: '', Units currentPrice 18,
                         Text '', Time remaining: '', Num timeRemaining, Text '' seconds'']
            Return
          else
            Console_log [Text ''Auction is no longer active.'']
           (await_getWinnerInfo (\<lambda>winnerInfo.
              let winner = winner winnerInfo;
                  winningTokenId = winningTokenId winnerInfo
              in
              if winner = AddressZero then
                Console_log [Text ''Auction ended with no bids. Calling endAuctionNoBids()...'']
               (await_send EndAuctionNoBids (\<lambda>tx.
                Console_log (called ''endAuctionNoBids'' tx)
               (await_wait tx
               (Console_log [Text ''Starting new auction...'']
               (await_send (StartAuction NEW_AUCTION_START_PRICE NEW_AUCTION_END_PRICE) (\<lambda>tx2.
                Console_log (called ''startAuction'' tx2)
               (await_wait tx2
                Return)))))))
              else
                Console_log [Text ''Auction ended with a winner ('', Str winner,
                             Text ''). Checking admin state...'']
               (await_getAdminState (\<lambda>adminState.
                  let proofSubmitted = proofSubmitted adminState;
                      claimed = claimed adminState
                  in
                  if \<not> proofSubmitted then
                    Console_log [Text ''Proof not yet submitted. Submitting proof (using 0x00 as proof)...'']
                   (await_send (SubmitProof winningTokenId zeroProof) (\<lambda>tx.
                    Console_log (called ''submitProof'' tx)
                   (await_wait tx
                    Return)))
                  else if proofSubmitted \<and> \<not> claimed then
                    Console_log [Text ''Proof submitted but payment not claimed. Claiming payment...'']
                   (await_send (ClaimPayment winningTokenId) (\<lambda>tx.
                    Console_log (called ''claimPayment'' tx)
                   (await_wait tx
                    Return)))
                  else if proofSubmitted \<and> claimed then
                    Console_log [Text ''Auction is fully settled. Starting new auction...'']
                   (await_send (StartAuction NEW_AUCTION_START_PRICE NEW_AUCTION_END_PRICE) (\<lambda>tx.
                    Console_log (called ''startAuction'' tx)
                   (await_wait tx
                    Return)))
                  else Return))))))
       (\<lambda>error. Console_error ''Error in checkAuctionStatus:'' error Return)"

subsection \<open>One cycle against a contract\<close>

text \<open>
  The contract as an oracle over a world state \<open>'s\<close>: every call returns its result (or
  an error) and the next state of the world, so reads may change between calls and calls
  may fail at any point. \<open>send\<close> submits a transaction, \<open>wait\<close> is \<^verbatim>\<open>tx.wait()\<close>.
\<close>

record 's contract =
  getAuctionState :: "'s \<Rightarrow> (error + int \<times> bool \<times> int) \<times> 's"
  getWinnerInfo :: "'s \<Rightarrow> (error + winner_info) \<times> 's"
  getAdminState :: "'s \<Rightarrow> (error + admin_state) \<times> 's"
  send :: "action \<Rightarrow> 's \<Rightarrow> (error + tx) \<times> 's"
  wait :: "tx \<Rightarrow> 's \<Rightarrow> (error + unit) \<times> 's"

text \<open>What a run leaves behind: every external call with its result, and the console.\<close>

datatype event =
    GetAuctionStateCall "error + int \<times> bool \<times> int"
  | GetWinnerInfoCall "error + winner_info"
  | GetAdminStateCall "error + admin_state"
  | Dispatch action "error + tx"
  | Confirm tx "error + unit"
  | ConsoleLog "piece list"
  | ConsoleError string error
  | ContractOn string
  | SetInterval nat

datatype outcome = Returned | Thrown error | Exited nat

type_synonym 's run = "outcome \<times> event list \<times> 's"

definition emit :: "event \<Rightarrow> 's run \<Rightarrow> 's run" where
  "emit ev r = (case r of (out, tr, s) \<Rightarrow> (out, ev # tr, s))"

primrec exec :: "'s contract \<Rightarrow> proc \<Rightarrow> 's \<Rightarrow> 's run" where
  "exec c (Await_getAuctionState k) s =
     (case getAuctionState c s of (r, s') \<Rightarrow> emit (GetAuctionStateCall r) (exec c (k r) s'))"
| "exec c (Await_getWinnerInfo k) s =
     (case getWinnerInfo c s of (r, s') \<Rightarrow> emit (GetWinnerInfoCall r) (exec c (k r) s'))"
| "exec c (Await_getAdminState k) s =
     (case getAdminState c s of (r, s') \<Rightarrow> emit (GetAdminStateCall r) (exec c (k r) s'))"
| "exec c (Await_send a k) s =
     (case send c a s of (r, s') \<Rightarrow> emit (Dispatch a r) (exec c (k r) s'))"
| "exec c (Await_wait t k) s =
     (case wait c t s of (r, s') \<Rightarrow> emit (Confirm t r) (exec c (k r) s'))"
| "exec c (Console_log m p) s = emit (ConsoleLog m) (exec c p s)"
| "exec c (Console_error m e p) s = emit (ConsoleError m e) (exec c p s)"
| "exec c (Contract_on n p) s = emit (ContractOn n) (exec c p s)"
| "exec c (Set_interval cb ms p) s = emit (SetInterval ms) (exec c p s)"
| "exec c (Process_exit n) s = (Exited n, [], s)"
| "exec c (Throw e) s = (Thrown e, [], s)"
| "exec c Return s = (Returned, [], s)"

definition result :: "'s run \<Rightarrow> outcome" where
  "result r = fst r"

definition trace :: "'s run \<Rightarrow> event list" where
  "trace r = fst (snd r)"

definition world :: "'s run \<Rightarrow> 's" where
  "world r = snd (snd r)"

text \<open>The state-transition commands a run has dispatched, in order.\<close>

fun dispatches :: "event list \<Rightarrow> action list" where
  "dispatches [] = []"
| "dispatches (Dispatch a r # evs) = a # dispatches evs"
| "dispatches (ev # evs) = dispatches evs"

text \<open>The commands and the confirmations awaited, with their results, in order.\<close>

fun commands :: "event list \<Rightarrow> event list" where
  "commands [] = []"
| "commands (Dispatch a r # evs) = Dispatch a r # commands evs"
| "commands (Confirm t r # evs) = Confirm t r # commands evs"
| "commands (ev # evs) = commands evs"

text \<open>
  What dispatching one command and awaiting its confirmation leaves in a run that starts
  in world \<open>s\<close>: the submission, then (when it was accepted) the confirmation, then (when
  that arrived) whatever \<open>k\<close> does from the world reached.
\<close>

definition dispatch_confirm ::
  "'s contract \<Rightarrow> action \<Rightarrow> 's \<Rightarrow> ('s \<Rightarrow> event list) \<Rightarrow> event list" where
  "dispatch_confirm c a s k =
     (case send c a s of
        (Inl e, s') \<Rightarrow> [Dispatch a (Inl e)]
      | (Inr t, s') \<Rightarrow>
          Dispatch a (Inr t) #
          (case wait c t s' of
             (Inl e, s'') \<Rightarrow> [Confirm t (Inl e)]
           | (Inr u, s'') \<Rightarrow> Confirm t (Inr u) # k s''))"

text \<open>The command \<open>a\<close>, sent in world \<open>s\<close>, is accepted and confirmed.\<close>

definition succeeded :: "'s contract \<Rightarrow> action \<Rightarrow> 's \<Rightarrow> bool" where
  "succeeded c a s =
     (case send c a s of
        (Inl e, s') \<Rightarrow> False
      | (Inr t, s') \<Rightarrow> (case wait c t s' of (Inl e, s'') \<Rightarrow> False | (Inr u, s'') \<Rightarrow> True))"

text \<open>
  The part of each read that the claims call decisive: the active flag; the winner address
  and token id; the proof and claim flags. The price, the time remaining, the winning bid
  and the \<^verbatim>\<open>ended\<close> flag are left out.
\<close>

definition low_state :: "(error + int \<times> bool \<times> int) \<times> 's \<Rightarrow> (error + bool) \<times> 's" where
  "low_state x =
     (case x of (r, s') \<Rightarrow>
        (map_sum id (\<lambda>(currentPrice, isActive, timeRemaining). isActive) r, s'))"

definition low_winner :: "(error + winner_info) \<times> 's \<Rightarrow> (error + string \<times> int) \<times> 's" where
  "low_winner x =
     (case x of (r, s') \<Rightarrow> (map_sum id (\<lambda>wi. (winner wi, winningTokenId wi)) r, s'))"

definition low_admin :: "(error + admin_state) \<times> 's \<Rightarrow> (error + bool \<times> bool) \<times> 's" where
  "low_admin x =
     (case x of (r, s') \<Rightarrow> (map_sum id (\<lambda>ad. (proofSubmitted ad, claimed ad)) r, s'))"

text \<open>The contract with everything but the decisive part of its reads blanked.\<close>

definition redact :: "'s contract \<Rightarrow> 's contract" where
  "redact c =
     \<lparr> getAuctionState = (\<lambda>s. case low_state (getAuctionState c s) of
          (r, s') \<Rightarrow> (map_sum id (\<lambda>b. (0, b, 0)) r, s')),
       getWinnerInfo = (\<lambda>s. case low_winner (getWinnerInfo c s) of
          (r, s') \<Rightarrow>
            (map_sum id (\<lambda>(w, t). \<lparr>winner = w, winningBid = 0, winningTokenId = t\<rparr>) r, s')),
       getAdminState = (\<lambda>s. case low_admin (getAdminState c s) of
          (r, s') \<Rightarrow>
            (map_sum id (\<lambda>(p, cl). \<lparr>proofSubmitted = p, claimed = cl, ended = False\<rparr>) r, s')),
       send = send c,
       wait = wait c \<rparr>"

text \<open>
  The first failed call of a run, and what the run does after it: the error is logged by
  the handler of \<open>checkAuctionStatus\<close> and nothing else happens.
\<close>

fun failure :: "event \<Rightarrow> error option" where
  "failure (GetAuctionStateCall (Inl e)) = Some e"
| "failure (GetWinnerInfoCall (Inl e)) = Some e"
| "failure (GetAdminStateCall (Inl e)) = Some e"
| "failure (Dispatch a (Inl e)) = Some e"
| "failure (Confirm t (Inl e)) = Some e"
| "failure ev = None"

fun stops_at_failure :: "event list \<Rightarrow> bool" where
  "stops_at_failure [] = True"
| "stops_at_failure (ev # evs) =
     (case failure ev of
        Some e \<Rightarrow> evs = [ConsoleError ''Error in checkAuctionStatus:'' e]
      | None \<Rightarrow> stops_at_failure evs)"

text \<open>
  \<open>settlement_guarded w evs\<close>: every \<^verbatim>\<open>getAdminState\<close> call of \<open>evs\<close> comes after a
  \<^verbatim>\<open>getWinnerInfo\<close> call that returned a winner other than the zero address (\<open>w\<close> tells
  whether such a call has been seen before \<open>evs\<close>).
\<close>

fun settlement_guarded :: "bool \<Rightarrow> event list \<Rightarrow> bool" where
  "settlement_guarded w [] = True"
| "settlement_guarded w (GetWinnerInfoCall (Inr wi) # evs) =
     settlement_guarded (w \<or> winner wi \<noteq> AddressZero) evs"
| "settlement_guarded w (GetAdminStateCall r # evs) = (w \<and> settlement_guarded w evs)"
| "settlement_guarded w (ev # evs) = settlement_guarded w evs"

text \<open>
  A contract for examples: the world state counts the calls made so far, and every answer
  may depend on that count.
\<close>

definition scripted ::
  "(nat \<Rightarrow> error + int \<times> bool \<times> int) \<Rightarrow> (nat \<Rightarrow> error + winner_info) \<Rightarrow>
   (nat \<Rightarrow> error + admin_state) \<Rightarrow> (action \<Rightarrow> nat \<Rightarrow> error + tx) \<Rightarrow>
   (tx \<Rightarrow> nat \<Rightarrow> error + unit) \<Rightarrow> nat contract" where
  "scripted st wi ad sd wt =
     \<lparr> getAuctionState = (\<lambda>n. (st n, Suc n)),
       getWinnerInfo = (\<lambda>n. (wi n, Suc n)),
       getAdminState = (\<lambda>n. (ad n, Suc n)),
       send = (\<lambda>a n. (sd a n, Suc n)),
       wait = (\<lambda>t n. (wt t n, Suc n)) \<rparr>"

text \<open>
  The examples of the specification: the snapshot (price 50, not active or active, 0 seconds
  remaining), a winner read, a settlement read; \<open>accepted a n\<close> tells whether command
  \<open>a\<close>, sent as the \<open>n\<close>-th call, is accepted. Every confirmation arrives.
\<close>

definition example ::
  "bool \<Rightarrow> winner_info \<Rightarrow> admin_state \<Rightarrow> (action \<Rightarrow> nat \<Rightarrow> bool) \<Rightarrow> nat contract" where
  "example isActive wi ad accepted =
     scripted (\<lambda>n. Inr (50, isActive, 0)) (\<lambda>n. Inr wi) (\<lambda>n. Inr ad)
       (\<lambda>a n. if accepted a n then Inr \<lparr>hash = ''0xfeed''\<rparr> else Inl (Error ''rejected''))
       (\<lambda>t n. Inr ())"

definition no_winner :: winner_info where
  "no_winner = \<lparr>winner = AddressZero, winningBid = 0, winningTokenId = 0\<rparr>"

definition winner_ABC :: winner_info where
  "winner_ABC = \<lparr>winner = ''0xABC'', winningBid = 42, winningTokenId = 7\<rparr>"

definition settlement :: "bool \<Rightarrow> bool \<Rightarrow> admin_state" where
  "settlement p cl = \<lparr>proofSubmitted = p, claimed = cl, ended = True\<rparr>"

subsection \<open>main and the polling loop\<close>

text \<open>
  \<open>setupEventListeners\<close> registers one handler per contract event. The handlers only
  write to the console; their bodies are not modelled.
\<close>

definition setupEventListeners :: proc where
  "setupEventListeners =
     Contract_on ''AuctionStarted''
    (Contract_on ''AuctionEnded''
    (Contract_on ''BidPlaced''
    (Contract_on ''ProofSubmitted''
    (Contract_on ''PaymentClaimed''
    (Contract_on ''WinningAdSelected''
     Return)))))"

definition startPolling :: proc where
  "startPolling =
     Console_log [Text ''Starting operator polling loop...'']
    (Set_interval checkAuctionStatus POLL_INTERVAL
     Return)"

definition main :: proc where
  "main =
     then_proc setupEventListeners
    (Console_log [Text ''Operator script is listening for events over WebSocket...'']
    (then_proc checkAuctionStatus
     startPolling))"

text \<open>The last statement of the script: \<^verbatim>\<open>main().catch(...)\<close>.\<close>

definition operator_script :: proc where
  "operator_script =
     try_catch main
       (\<lambda>error. Console_error ''Fatal error in operator script:'' error (Process_exit 1))"

subsection \<open>The event loop\<close>

text \<open>
  JavaScript runs one procedure at a time until it suspends at an \<^verbatim>\<open>await\<close> or ends.
  The state of the process: the suspended procedures (each waits for the answer to the
  call at its head), the interval timer registered by \<^verbatim>\<open>setInterval\<close> with its callback
  and period, the registered listeners, the console, the exit code once
  \<^verbatim>\<open>process.exit\<close> has been called, and the rejections that nothing handles.
\<close>

record runtime =
  pending :: "proc list"
  interval :: "(proc \<times> nat) option"
  listeners :: "string list"
  console :: "event list"
  exit_code :: "nat option"
  unhandled :: "error list"

text \<open>Run a procedure until it suspends (the suspended rest is returned) or ends.\<close>

primrec run_sync :: "proc \<Rightarrow> runtime \<Rightarrow> proc option \<times> runtime" where
  "run_sync (Await_getAuctionState k) rt = (Some (Await_getAuctionState k), rt)"
| "run_sync (Await_getWinnerInfo k) rt = (Some (Await_getWinnerInfo k), rt)"
| "run_sync (Await_getAdminState k) rt = (Some (Await_getAdminState k), rt)"
| "run_sync (Await_send a k) rt = (Some (Await_send a k), rt)"
| "run_sync (Await_wait t k) rt = (Some (Await_wait t k), rt)"
| "run_sync (Console_log m p) rt = run_sync p (rt\<lparr>console := console rt @ [ConsoleLog m]\<rparr>)"
| "run_sync (Console_error m e p) rt =
     run_sync p (rt\<lparr>console := console rt @ [ConsoleError m e]\<rparr>)"
| "run_sync (Contract_on n p) rt = run_sync p (rt\<lparr>listeners := listeners rt @ [n]\<rparr>)"
| "run_sync (Set_interval cb ms p) rt = run_sync p (rt\<lparr>interval := Some (cb, ms)\<rparr>)"
| "run_sync (Process_exit n) rt = (None, rt\<lparr>exit_code := Some n\<rparr>)"
| "run_sync (Throw e) rt = (None, rt\<lparr>unhandled := unhandled rt @ [e]\<rparr>)"
| "run_sync Return rt = (None, rt)"

definition start_task :: "proc \<Rightarrow> runtime \<Rightarrow> runtime" where
  "start_task p rt =
     (case run_sync p rt of
        (None, rt') \<Rightarrow> rt'
      | (Some p', rt') \<Rightarrow> rt'\<lparr>pending := pending rt' @ [p']\<rparr>)"

text \<open>The answer of the contract to a call, as the event loop delivers it.\<close>

datatype response =
    AuctionStateR "error + int \<times> bool \<times> int"
  | WinnerInfoR "error + winner_info"
  | AdminStateR "error + admin_state"
  | SentR "error + tx"
  | ConfirmedR "error + unit"

fun resume :: "proc \<Rightarrow> response \<Rightarrow> proc option" where
  "resume (Await_getAuctionState k) (AuctionStateR r) = Some (k r)"
| "resume (Await_getWinnerInfo k) (WinnerInfoR r) = Some (k r)"
| "resume (Await_getAdminState k) (AdminStateR r) = Some (k r)"
| "resume (Await_send a k) (SentR r) = Some (k r)"
| "resume (Await_wait t k) (ConfirmedR r) = Some (k r)"
| "resume p r = None"

text \<open>
  What happens to the process: the interval timer fires (\<open>Tick\<close>), or the call that the
  \<open>i\<close>-th suspended procedure waits for is answered (\<open>Settle i r\<close>). The order and the
  timing of these events are the environment's: the script sets no timeout.
\<close>

datatype loop_event = Tick | Settle nat response

definition remove_nth :: "nat \<Rightarrow> 'a list \<Rightarrow> 'a list" where
  "remove_nth i xs = take i xs @ drop (Suc i) xs"

fun step :: "runtime \<Rightarrow> loop_event \<Rightarrow> runtime" where
  "step rt Tick =
     (if exit_code rt \<noteq> None then rt
      else case interval rt of
        None \<Rightarrow> rt
      | Some (cb, ms) \<Rightarrow> start_task cb rt)"
| "step rt (Settle i r) =
     (if exit_code rt \<noteq> None \<or> length (pending rt) \<le> i then rt
      else case resume (pending rt ! i) r of
        None \<Rightarrow> rt
      | Some p \<Rightarrow>
          (case run_sync p rt of
             (None, rt') \<Rightarrow> rt'\<lparr>pending := remove_nth i (pending rt')\<rparr>
           | (Some p', rt') \<Rightarrow> rt'\<lparr>pending := (pending rt')[i := p']\<rparr>))"

text \<open>The process after a sequence of events, oldest first.\<close>

definition run_loop :: "runtime \<Rightarrow> loop_event list \<Rightarrow> runtime" where
  "run_loop rt evs = foldl step rt evs"

text \<open>
  The process when the script has called \<open>main\<close> and control is back in the event
  loop. The module-level setup before that call (provider, wallet and contract objects)
  is taken to have succeeded, and registering a listener is taken not to fail.
\<close>

definition boot :: runtime where
  "boot = start_task operator_script
     \<lparr> pending = [], interval = None, listeners = [], console = [],
       exit_code = None, unhandled = [] \<rparr>"

text \<open>The call a suspended procedure waits for.\<close>

datatype call =
    CallGetAuctionState
  | CallGetWinnerInfo
  | CallGetAdminState
  | CallSend action
  | CallWait tx

fun awaiting :: "proc \<Rightarrow> call option" where
  "awaiting (Await_getAuctionState k) = Some CallGetAuctionState"
| "awaiting (Await_getWinnerInfo k) = Some CallGetWinnerInfo"
| "awaiting (Await_getAdminState k) = Some CallGetAdminState"
| "awaiting (Await_send a k) = Some (CallSend a)"
| "awaiting (Await_wait t k) = Some (CallWait t)"
| "awaiting p = None"

text \<open>
  The code of a cycle: console output and awaited contract calls only (no throw left
  uncaught, no exit, no timer, no listener).
\<close>

inductive cycle_code :: "proc \<Rightarrow> bool" where
  cc_Return: "cycle_code Return"
| cc_log: "cycle_code p \<Longrightarrow> cycle_code (Console_log m p)"
| cc_error: "cycle_code p \<Longrightarrow> cycle_code (Console_error m e p)"
| cc_state: "(\<And>r. cycle_code (k1 r)) \<Longrightarrow> cycle_code (Await_getAuctionState k1)"
| cc_winner: "(\<And>r. cycle_code (k2 r)) \<Longrightarrow> cycle_code (Await_getWinnerInfo k2)"
| cc_admin: "(\<And>r. cycle_code (k3 r)) \<Longrightarrow> cycle_code (Await_getAdminState k3)"
| cc_send: "(\<And>r. cycle_code (k4 r)) \<Longrightarrow> cycle_code (Await_send a k4)"
| cc_wait: "(\<And>r. cycle_code (k5 r)) \<Longrightarrow> cycle_code (Await_wait t k5)"

text \<open>
  The two phases of the process. \<open>starting\<close>: the cycle that \<open>main\<close> awaits is the only
  suspended procedure and no timer is registered. \<open>steady\<close>: the timer is registered with
  \<open>checkAuctionStatus\<close> and \<open>POLL_INTERVAL\<close>, and every suspended procedure is a cycle.
\<close>

definition starting :: "runtime \<Rightarrow> bool" where
  "starting rt \<longleftrightarrow>
     interval rt = None \<and> exit_code rt = None \<and> unhandled rt = [] \<and>
     (\<exists>p. pending rt = [then_proc p startPolling] \<and> cycle_code p \<and> awaiting p \<noteq> None)"

definition steady :: "runtime \<Rightarrow> bool" where
  "steady rt \<longleftrightarrow>
     interval rt = Some (checkAuctionStatus, POLL_INTERVAL) \<and> exit_code rt = None \<and>
     unhandled rt = [] \<and> (\<forall>p \<in> set (pending rt). cycle_code p \<and> awaiting p \<noteq> None)"

text \<open>The process once the first cycle has found the auction active and has returned.\<close>

definition started :: runtime where
  "started = run_loop boot [Settle 0 (AuctionStateR (Inr (50, True, 0)))]"

text \<open>The example contracts used below.\<close>

definition live :: "nat contract" where
  "live = example True winner_ABC (settlement False False) (\<lambda>a n. True)"

definition no_bids :: "nat contract" where
  "no_bids = example False no_winner (settlement False False) (\<lambda>a n. True)"

definition no_bids_rejected :: "nat contract" where
  "no_bids_rejected = example False no_winner (settlement False False) (\<lambda>a n. False)"

definition proof_pending :: "nat contract" where
  "proof_pending = example False winner_ABC (settlement False False) (\<lambda>a n. True)"

definition payment_pending :: "nat contract" where
  "payment_pending = example False winner_ABC (settlement True False) (\<lambda>a n. 4 \<le> n)"

definition fully_settled :: "nat contract" where
  "fully_settled = example False winner_ABC (settlement True True) (\<lambda>a n. True)"

text \<open>
  An environment that sets the three variables the script reads, and a polling period
  of 30 seconds besides.
\<close>

definition env_30s :: env where
  "env_30s =
     [''PROVIDER_WS'' \<mapsto> ''wss://node.example/ws'',
      ''PRIVATE_KEY'' \<mapsto> ''0x0123456789abcdef0123456789abcdef0123456789abcdef0123456789abcdef'',
      ''CONTRACT_ADDRESS'' \<mapsto> ''0x00000000000000000000000000000000000000A1'',
      ''POLL_INTERVAL'' \<mapsto> ''30000'']"

text \<open>\<open>proof_pending\<close> with another price, time remaining, winning bid and ended flag.\<close>

definition proof_pending_repriced :: "nat contract" where
  "proof_pending_repriced =
     scripted (\<lambda>n. Inr (99, False, 15))
       (\<lambda>n. Inr \<lparr>winner = ''0xABC'', winningBid = 1000, winningTokenId = 7\<rparr>)
       (\<lambda>n. Inr \<lparr>proofSubmitted = False, claimed = False, ended = False\<rparr>)
       (\<lambda>a n. Inr \<lparr>hash = ''0xfeed''\<rparr>)
       (\<lambda>t n. Inr ())"


section \<open>Properties\<close>

subsection \<open>Running procedures\<close>

lemma prices:
  "NEW_AUCTION_START_PRICE = 100 * 10 ^ 18" "NEW_AUCTION_END_PRICE = 10 * 10 ^ 18"
  by (simp_all add: NEW_AUCTION_START_PRICE_def NEW_AUCTION_END_PRICE_def parseUnits_def
      digit_val_def)

lemma zeroProof_literal:
  "zeroProof = ''0x0000000000000000000000000000000000000000000000000000000000000000''"
  by (simp add: zeroProof_def numeral_eq_Suc)

lemma try_catch_settled:
  "try_catch (settled k r) h = (case r of Inl e \<Rightarrow> h e | Inr v \<Rightarrow> try_catch (k v) h)"
  by (simp add: settled_def split: sum.splits)

lemma try_catch_if:
  "try_catch (if b then p else q) h = (if b then try_catch p h else try_catch q h)"
  by simp

lemma exec_sum:
  "exec c (case r of Inl e \<Rightarrow> f e | Inr v \<Rightarrow> g v) s =
     (case r of Inl e \<Rightarrow> exec c (f e) s | Inr v \<Rightarrow> exec c (g v) s)"
  by (simp split: sum.splits)

lemma emit_simps:
  "emit ev (out, tr, s) = (out, ev # tr, s)"
  "trace (emit ev r) = ev # trace r"
  "result (emit ev r) = result r"
  "world (emit ev r) = world r"
  "trace (out, tr, s) = tr"
  "result (out, tr, s) = out"
  "world (out, tr, s) = s"
  by (simp_all add: emit_def trace_def result_def world_def split: prod.splits)

lemmas run_simps = emit_simps(5-7)

lemmas unfold_cas = checkAuctionStatus_def await_getAuctionState_def await_getWinnerInfo_def
  await_getAdminState_def await_send_def await_wait_def try_catch_settled try_catch_if exec_sum
  emit_simps Let_def case_prod_beta

lemmas examples = live_def no_bids_def no_bids_rejected_def proof_pending_def
  payment_pending_def fully_settled_def proof_pending_repriced_def example_def scripted_def
  no_winner_def winner_ABC_def settlement_def AddressZero_def

text \<open>
  Every run of \<open>checkAuctionStatus\<close>, path by path: what the contract answered, and the
  run (result, trace, world left) that follows.
\<close>

lemma checkAuctionStatus_cases
  [case_names state_failed active winner_failed end_rejected end_unconfirmed
      reopen_rejected reopen_unconfirmed reopened admin_failed rejected unconfirmed confirmed]:
  fixes c :: "'s contract" and s :: 's and P :: "'s run \<Rightarrow> bool"
  defines "caught \<equiv> ConsoleError ''Error in checkAuctionStatus:''"
    and "reopen \<equiv> StartAuction NEW_AUCTION_START_PRICE NEW_AUCTION_END_PRICE"
    and "lead \<equiv> \<lambda>st wi. [GetAuctionStateCall (Inr st),
            ConsoleLog [Text ''Auction is no longer active.''], GetWinnerInfoCall wi]"
    and "closing \<equiv> \<lambda>r. [ConsoleLog [Text ''Auction ended with no bids. Calling endAuctionNoBids()...''],
            Dispatch EndAuctionNoBids r]"
    and "closed \<equiv> \<lambda>t r. [ConsoleLog (called ''endAuctionNoBids'' t), Confirm t r]"
    and "reopening \<equiv> \<lambda>r. [ConsoleLog [Text ''Starting new auction...''],
            Dispatch (StartAuction NEW_AUCTION_START_PRICE NEW_AUCTION_END_PRICE) r]"
    and "with_winner \<equiv> \<lambda>wi r. [ConsoleLog [Text ''Auction ended with a winner ('', Str (winner wi),
            Text ''). Checking admin state...''], GetAdminStateCall r]"
    and "act \<equiv> \<lambda>wi ad.
            if \<not> proofSubmitted ad then SubmitProof (winningTokenId wi) zeroProof
            else if \<not> claimed ad then ClaimPayment (winningTokenId wi)
            else StartAuction NEW_AUCTION_START_PRICE NEW_AUCTION_END_PRICE"
    and "announce \<equiv> \<lambda>ad.
            if \<not> proofSubmitted ad
            then ConsoleLog [Text ''Proof not yet submitted. Submitting proof (using 0x00 as proof)...'']
            else if \<not> claimed ad
            then ConsoleLog [Text ''Proof submitted but payment not claimed. Claiming payment...'']
            else ConsoleLog [Text ''Auction is fully settled. Starting new auction...'']"
    and "fname \<equiv> \<lambda>ad.
            if \<not> proofSubmitted ad then ''submitProof''
            else if \<not> claimed ad then ''claimPayment'' else ''startAuction''"
  assumes state_failed: "\<And>e s1.
      getAuctionState c s = (Inl e, s1) \<Longrightarrow>
      P (Returned, [GetAuctionStateCall (Inl e), caught e], s1)"
    and active: "\<And>currentPrice timeRemaining s1.
      getAuctionState c s = (Inr (currentPrice, True, timeRemaining), s1) \<Longrightarrow>
      P (Returned,
         [GetAuctionStateCall (Inr (currentPrice, True, timeRemaining)),
          ConsoleLog [Text ''Auction is active. Current price: '', Units currentPrice 18,
                      Text '', Time remaining: '', Num timeRemaining, Text '' seconds'']], s1)"
    and winner_failed: "\<And>currentPrice timeRemaining s1 e s2.
      getAuctionState c s = (Inr (currentPrice, False, timeRemaining), s1) \<Longrightarrow>
      getWinnerInfo c s1 = (Inl e, s2) \<Longrightarrow>
      P (Returned, lead (currentPrice, False, timeRemaining) (Inl e) @ [caught e], s2)"
    and end_rejected: "\<And>currentPrice timeRemaining s1 wi s2 e s3.
      getAuctionState c s = (Inr (currentPrice, False, timeRemaining), s1) \<Longrightarrow>
      getWinnerInfo c s1 = (Inr wi, s2) \<Longrightarrow> winner wi = AddressZero \<Longrightarrow>
      send c EndAuctionNoBids s2 = (Inl e, s3) \<Longrightarrow>
      P (Returned, lead (currentPrice, False, timeRemaining) (Inr wi) @ closing (Inl e) @ [caught e], s3)"
    and end_unconfirmed: "\<And>currentPrice timeRemaining s1 wi s2 t1 s3 e s4.
      getAuctionState c s = (Inr (currentPrice, False, timeRemaining), s1) \<Longrightarrow>
      getWinnerInfo c s1 = (Inr wi, s2) \<Longrightarrow> winner wi = AddressZero \<Longrightarrow>
      send c EndAuctionNoBids s2 = (Inr t1, s3) \<Longrightarrow> wait c t1 s3 = (Inl e, s4) \<Longrightarrow>
      P (Returned, lead (currentPrice, False, timeRemaining) (Inr wi) @ closing (Inr t1)
           @ closed t1 (Inl e) @ [caught e], s4)"
    and reopen_rejected: "\<And>currentPrice timeRemaining s1 wi s2 t1 s3 s4 e s5.
      getAuctionState c s = (Inr (currentPrice, False, timeRemaining), s1) \<Longrightarrow>
      getWinnerInfo c s1 = (Inr wi, s2) \<Longrightarrow> winner wi = AddressZero \<Longrightarrow>
      send c EndAuctionNoBids s2 = (Inr t1, s3) \<Longrightarrow> wait c t1 s3 = (Inr (), s4) \<Longrightarrow>
      send c reopen s4 = (Inl e, s5) \<Longrightarrow>
      P (Returned, lead (currentPrice, False, timeRemaining) (Inr wi) @ closing (Inr t1)
           @ closed t1 (Inr ()) @ reopening (Inl e) @ [caught e], s5)"
    and reopen_unconfirmed: "\<And>currentPrice timeRemaining s1 wi s2 t1 s3 s4 t2 s5 e s6.
      getAuctionState c s = (Inr (currentPrice, False, timeRemaining), s1) \<Longrightarrow>
      getWinnerInfo c s1 = (Inr wi, s2) \<Longrightarrow> winner wi = AddressZero \<Longrightarrow>
      send c EndAuctionNoBids s2 = (Inr t1, s3) \<Longrightarrow> wait c t1 s3 = (Inr (), s4) \<Longrightarrow>
      send c reopen s4 = (Inr t2, s5) \<Longrightarrow> wait c t2 s5 = (Inl e, s6) \<Longrightarrow>
      P (Returned, lead (currentPrice, False, timeRemaining) (Inr wi) @ closing (Inr t1)
           @ closed t1 (Inr ()) @ reopening (Inr t2)
           @ [ConsoleLog (called ''startAuction'' t2), Confirm t2 (Inl e), caught e], s6)"
    and reopened: "\<And>currentPrice timeRemaining s1 wi s2 t1 s3 s4 t2 s5 s6.
      getAuctionState c s = (Inr (currentPrice, False, timeRemaining), s1) \<Longrightarrow>
      getWinnerInfo c s1 = (Inr wi, s2) \<Longrightarrow> winner wi = AddressZero \<Longrightarrow>
      send c EndAuctionNoBids s2 = (Inr t1, s3) \<Longrightarrow> wait c t1 s3 = (Inr (), s4) \<Longrightarrow>
      send c reopen s4 = (Inr t2, s5) \<Longrightarrow> wait c t2 s5 = (Inr (), s6) \<Longrightarrow>
      P (Returned, lead (currentPrice, False, timeRemaining) (Inr wi) @ closing (Inr t1)
           @ closed t1 (Inr ()) @ reopening (Inr t2)
           @ [ConsoleLog (called ''startAuction'' t2), Confirm t2 (Inr ())], s6)"
    and admin_failed: "\<And>currentPrice timeRemaining s1 wi s2 e s3.
      getAuctionState c s = (Inr (currentPrice, False, timeRemaining), s1) \<Longrightarrow>
      getWinnerInfo c s1 = (Inr wi, s2) \<Longrightarrow> winner wi \<noteq> AddressZero \<Longrightarrow>
      getAdminState c s2 = (Inl e, s3) \<Longrightarrow>
      P (Returned, lead (currentPrice, False, timeRemaining) (Inr wi) @ with_winner wi (Inl e)
           @ [caught e], s3)"
    and rejected: "\<And>currentPrice timeRemaining s1 wi s2 ad s3 e s4.
      getAuctionState c s = (Inr (currentPrice, False, timeRemaining), s1) \<Longrightarrow>
      getWinnerInfo c s1 = (Inr wi, s2) \<Longrightarrow> winner wi \<noteq> AddressZero \<Longrightarrow>
      getAdminState c s2 = (Inr ad, s3) \<Longrightarrow> send c (act wi ad) s3 = (Inl e, s4) \<Longrightarrow>
      P (Returned, lead (currentPrice, False, timeRemaining) (Inr wi) @ with_winner wi (Inr ad)
           @ [announce ad, Dispatch (act wi ad) (Inl e), caught e], s4)"
    and unconfirmed: "\<And>currentPrice timeRemaining s1 wi s2 ad s3 t s4 e s5.
      getAuctionState c s = (Inr (currentPrice, False, timeRemaining), s1) \<Longrightarrow>
      getWinnerInfo c s1 = (Inr wi, s2) \<Longrightarrow> winner wi \<noteq> AddressZero \<Longrightarrow>
      getAdminState c s2 = (Inr ad, s3) \<Longrightarrow> send c (act wi ad) s3 = (Inr t, s4) \<Longrightarrow>
      wait c t s4 = (Inl e, s5) \<Longrightarrow>
      P (Returned, lead (currentPrice, False, timeRemaining) (Inr wi) @ with_winner wi (Inr ad)
           @ [announce ad, Dispatch (act wi ad) (Inr t), ConsoleLog (called (fname ad) t),
              Confirm t (Inl e), caught e], s5)"
    and confirmed: "\<And>currentPrice timeRemaining s1 wi s2 ad s3 t s4 s5.
      getAuctionState c s = (Inr (currentPrice, False, timeRemaining), s1) \<Longrightarrow>
      getWinnerInfo c s1 = (Inr wi, s2) \<Longrightarrow> winner wi \<noteq> AddressZero \<Longrightarrow>
      getAdminState c s2 = (Inr ad, s3) \<Longrightarrow> send c (act wi ad) s3 = (Inr t, s4) \<Longrightarrow>
      wait c t s4 = (Inr (), s5) \<Longrightarrow>
      P (Returned, lead (currentPrice, False, timeRemaining) (Inr wi) @ with_winner wi (Inr ad)
           @ [announce ad, Dispatch (act wi ad) (Inr t), ConsoleLog (called (fname ad) t),
              Confirm t (Inr ())], s5)"
  shows "P (exec c checkAuctionStatus s)"
proof -
  note defs = caught_def reopen_def lead_def closing_def closed_def reopening_def
    with_winner_def act_def announce_def fname_def
  have no_bids_path: "P (exec c checkAuctionStatus s)"
    if g: "getAuctionState c s = (Inr (cp, False, tr), s1)" "getWinnerInfo c s1 = (Inr wi, s2)"
      "winner wi = AddressZero"
    for cp tr s1 wi s2
  proof -
    obtain r3 s3 where g3: "send c EndAuctionNoBids s2 = (r3, s3)" by force
    show ?thesis
    proof (cases r3)
      case (Inl e)
      from end_rejected[OF g g3[unfolded Inl]] show ?thesis
        by (simp add: unfold_cas defs g g3 Inl)
    next
      case t1: (Inr t1)
      obtain r4 s4 where g4: "wait c t1 s3 = (r4, s4)" by force
      show ?thesis
      proof (cases r4)
        case (Inl e)
        from end_unconfirmed[OF g g3[unfolded t1] g4[unfolded Inl]] show ?thesis
          by (simp add: unfold_cas defs g g3 t1 g4 Inl)
      next
        case u: (Inr u)
        obtain r5 s5 where g5: "send c reopen s4 = (r5, s5)" by force
        show ?thesis
        proof (cases r5)
          case (Inl e)
          from reopen_rejected[OF g g3[unfolded t1] g4[unfolded u, simplified] g5[unfolded Inl]]
          show ?thesis
            using g5 by (simp add: unfold_cas defs g g3 t1 g4 u Inl)
        next
          case t2: (Inr t2)
          obtain r6 s6 where g6: "wait c t2 s5 = (r6, s6)" by force
          show ?thesis
          proof (cases r6)
            case (Inl e)
            from reopen_unconfirmed[OF g g3[unfolded t1] g4[unfolded u, simplified]
                g5[unfolded t2] g6[unfolded Inl]]
            show ?thesis
              using g5 by (simp add: unfold_cas defs g g3 t1 g4 u t2 g6 Inl)
          next
            case (Inr u')
            from reopened[OF g g3[unfolded t1] g4[unfolded u, simplified]
                g5[unfolded t2] g6[unfolded Inr, simplified]]
            show ?thesis
              using g5 by (simp add: unfold_cas defs g g3 t1 g4 u t2 g6 Inr)
          qed
        qed
      qed
    qed
  qed
  have winner_path: "P (exec c checkAuctionStatus s)"
    if g: "getAuctionState c s = (Inr (cp, False, tr), s1)" "getWinnerInfo c s1 = (Inr wi, s2)"
      "winner wi \<noteq> AddressZero"
    for cp tr s1 wi s2
  proof -
    obtain r3 s3 where g3: "getAdminState c s2 = (r3, s3)" by force
    show ?thesis
    proof (cases r3)
      case (Inl e)
      from admin_failed[OF g g3[unfolded Inl]] show ?thesis
        by (simp add: unfold_cas defs g g3 Inl)
    next
      case ad: (Inr ad)
      obtain r4 s4 where g4: "send c (act wi ad) s3 = (r4, s4)" by force
      show ?thesis
      proof (cases r4)
        case (Inl e)
        from rejected[OF g g3[unfolded ad] g4[unfolded Inl]] show ?thesis
          using g4 by (auto simp add: unfold_cas defs g g3 ad Inl)
      next
        case t: (Inr t)
        obtain r5 s5 where g5: "wait c t s4 = (r5, s5)" by force
        show ?thesis
        proof (cases r5)
          case (Inl e)
          from unconfirmed[OF g g3[unfolded ad] g4[unfolded t] g5[unfolded Inl]] show ?thesis
            using g4 by (auto simp add: unfold_cas defs g g3 ad t g5 Inl)
        next
          case (Inr u)
          from confirmed[OF g g3[unfolded ad] g4[unfolded t] g5[unfolded Inr, simplified]]
          show ?thesis
            using g4 by (auto simp add: unfold_cas defs g g3 ad t g5 Inr)
        qed
      qed
    qed
  qed
  obtain r1 s1 where g1: "getAuctionState c s = (r1, s1)" by force
  show ?thesis
  proof (cases r1)
    case (Inl e)
    from state_failed[OF g1[unfolded Inl]] show ?thesis
      by (simp add: unfold_cas defs g1 Inl)
  next
    case (Inr st)
    obtain cp ia tr where st: "st = (cp, ia, tr)" by (cases st)
    note g1' = g1[unfolded Inr st]
    show ?thesis
    proof (cases ia)
      case True
      with g1' have g1t: "getAuctionState c s = (Inr (cp, True, tr), s1)" by simp
      from active[OF g1t] show ?thesis
        by (simp add: unfold_cas defs g1t)
    next
      case False
      with g1' have g1'': "getAuctionState c s = (Inr (cp, False, tr), s1)" by simp
      obtain r2 s2 where g2: "getWinnerInfo c s1 = (r2, s2)" by force
      show ?thesis
      proof (cases r2)
        case (Inl e)
        from winner_failed[OF g1'' g2[unfolded Inl]] show ?thesis
          by (simp add: unfold_cas defs g1'' g2 Inl)
      next
        case (Inr wi)
        show ?thesis
          using no_bids_path[OF g1'' g2[unfolded Inr]] winner_path[OF g1'' g2[unfolded Inr]]
          by blast
      qed
    qed
  qed
qed

subsection \<open>One cycle\<close>

text \<open>
  C1. When the snapshot read returns \<open>isActive = True\<close>, the cycle logs the price and the
  time remaining and returns: the run is the read and one console line, and no command is
  dispatched.
\<close>

theorem active_no_dispatch:
  assumes "getAuctionState c s = (Inr (currentPrice, True, timeRemaining), s1)"
  shows "exec c checkAuctionStatus s =
           (Returned,
            [GetAuctionStateCall (Inr (currentPrice, True, timeRemaining)),
             ConsoleLog [Text ''Auction is active. Current price: '', Units currentPrice 18,
                         Text '', Time remaining: '', Num timeRemaining, Text '' seconds'']],
            s1)
       \<and> dispatches (trace (exec c checkAuctionStatus s)) = []
       \<and> commands (trace (exec c checkAuctionStatus s)) = []"
  using assms by (simp add: unfold_cas)

theorem active_no_dispatch_witness:
  "getAuctionState live 0 = (Inr (50, True, 0), 1)
   \<and> exec live checkAuctionStatus 0 =
       (Returned,
        [GetAuctionStateCall (Inr (50, True, 0)),
         ConsoleLog [Text ''Auction is active. Current price: '', Units 50 18,
                     Text '', Time remaining: '', Num 0, Text '' seconds'']],
        1)
   \<and> dispatches (trace (exec live checkAuctionStatus 0)) = []"
proof -
  have h: "getAuctionState live 0 = (Inr (50, True, 0), 1)"
    by (simp add: examples)
  from active_no_dispatch[OF h] h show ?thesis by (simp add: run_simps)
qed

text \<open>
  C2, as the claim states it, fails: when the contract rejects \<open>EndAuctionNoBids\<close> the
  error is caught, \<open>StartAuction\<close> is not dispatched, and the cycle has dispatched
  \<open>EndAuctionNoBids\<close> only.
\<close>

theorem no_bids_rejected_counterexample:
  "getAuctionState no_bids_rejected 0 = (Inr (50, False, 0), 1)
   \<and> getWinnerInfo no_bids_rejected 1 = (Inr no_winner, 2)
   \<and> winner no_winner = AddressZero
   \<and> dispatches (trace (exec no_bids_rejected checkAuctionStatus 0)) = [EndAuctionNoBids]
   \<and> dispatches (trace (exec no_bids_rejected checkAuctionStatus 0)) \<noteq>
       [EndAuctionNoBids, StartAuction NEW_AUCTION_START_PRICE NEW_AUCTION_END_PRICE]"
  by (simp add: unfold_cas examples)

text \<open>
  C2, amended. When the snapshot is not active and the winner is the zero address, the
  cycle dispatches \<open>EndAuctionNoBids\<close> and awaits its confirmation; when the submission
  and the confirmation both succeed it goes on to dispatch \<open>StartAuction\<close> with the
  default prices (100 and 10, in 18-decimal units) and awaits its confirmation; when
  either fails it dispatches nothing more. Nothing else is dispatched.
\<close>

theorem no_bids_close_then_reopen:
  assumes "getAuctionState c s = (Inr (currentPrice, False, timeRemaining), s1)"
    and "getWinnerInfo c s1 = (Inr wi, s2)"
    and "winner wi = AddressZero"
  shows "commands (trace (exec c checkAuctionStatus s)) =
           dispatch_confirm c EndAuctionNoBids s2 (\<lambda>s4.
           dispatch_confirm c (StartAuction NEW_AUCTION_START_PRICE NEW_AUCTION_END_PRICE) s4
             (\<lambda>s6. []))
       \<and> dispatches (trace (exec c checkAuctionStatus s)) =
           (if succeeded c EndAuctionNoBids s2
            then [EndAuctionNoBids, StartAuction NEW_AUCTION_START_PRICE NEW_AUCTION_END_PRICE]
            else [EndAuctionNoBids])
       \<and> NEW_AUCTION_START_PRICE = 100 * 10 ^ 18 \<and> NEW_AUCTION_END_PRICE = 10 * 10 ^ 18"
  using assms
  by (cases rule: checkAuctionStatus_cases[of c s])
     (simp_all add: run_simps dispatch_confirm_def succeeded_def prices)

theorem no_bids_close_then_reopen_witness:
  "getAuctionState no_bids 0 = (Inr (50, False, 0), 1)
   \<and> getWinnerInfo no_bids 1 = (Inr no_winner, 2)
   \<and> winner no_winner = AddressZero
   \<and> succeeded no_bids EndAuctionNoBids 2
   \<and> dispatches (trace (exec no_bids checkAuctionStatus 0)) =
       [EndAuctionNoBids, StartAuction 100000000000000000000 10000000000000000000]
   \<and> commands (trace (exec no_bids checkAuctionStatus 0)) =
       [Dispatch EndAuctionNoBids (Inr \<lparr>hash = ''0xfeed''\<rparr>),
        Confirm \<lparr>hash = ''0xfeed''\<rparr> (Inr ()),
        Dispatch (StartAuction 100000000000000000000 10000000000000000000)
          (Inr \<lparr>hash = ''0xfeed''\<rparr>),
        Confirm \<lparr>hash = ''0xfeed''\<rparr> (Inr ())]"
proof -
  have h1: "getAuctionState no_bids 0 = (Inr (50, False, 0), 1)"
    and h2: "getWinnerInfo no_bids 1 = (Inr no_winner, 2)"
    and h3: "winner no_winner = AddressZero"
    and h4: "succeeded no_bids EndAuctionNoBids 2"
    by (simp_all add: examples succeeded_def)
  from no_bids_close_then_reopen[OF h1 h2 h3] h1 h2 h3 h4 show ?thesis
    by (simp add: dispatch_confirm_def examples)
qed

text \<open>
  C3. When the snapshot is not active, the winner is not the zero address and the
  settlement read returns \<open>proofSubmitted = False\<close> (whatever \<open>claimed\<close> is), the cycle
  dispatches exactly one command: \<open>SubmitProof\<close> with the token id of that cycle's
  winner read and the 32-byte zero value, and awaits its confirmation.
\<close>

theorem proof_pending_submits_proof:
  assumes "getAuctionState c s = (Inr (currentPrice, False, timeRemaining), s1)"
    and "getWinnerInfo c s1 = (Inr wi, s2)"
    and "winner wi \<noteq> AddressZero"
    and "getAdminState c s2 = (Inr ad, s3)"
    and "\<not> proofSubmitted ad"
  shows "dispatches (trace (exec c checkAuctionStatus s)) =
           [SubmitProof (winningTokenId wi) zeroProof]
       \<and> commands (trace (exec c checkAuctionStatus s)) =
           dispatch_confirm c (SubmitProof (winningTokenId wi) zeroProof) s3 (\<lambda>s5. [])
       \<and> zeroProof = ''0x0000000000000000000000000000000000000000000000000000000000000000''"
  using assms
  by (cases rule: checkAuctionStatus_cases[of c s])
     (simp_all add: run_simps dispatch_confirm_def zeroProof_literal[symmetric])

theorem proof_pending_submits_proof_witness:
  "getAuctionState proof_pending 0 = (Inr (50, False, 0), 1)
   \<and> getWinnerInfo proof_pending 1 = (Inr winner_ABC, 2)
   \<and> winner winner_ABC \<noteq> AddressZero
   \<and> getAdminState proof_pending 2 = (Inr (settlement False False), 3)
   \<and> \<not> proofSubmitted (settlement False False)
   \<and> dispatches (trace (exec proof_pending checkAuctionStatus 0)) = [SubmitProof 7 zeroProof]"
proof -
  have h1: "getAuctionState proof_pending 0 = (Inr (50, False, 0), 1)"
    and h2: "getWinnerInfo proof_pending 1 = (Inr winner_ABC, 2)"
    and h3: "winner winner_ABC \<noteq> AddressZero"
    and h4: "getAdminState proof_pending 2 = (Inr (settlement False False), 3)"
    and h5: "\<not> proofSubmitted (settlement False False)"
    by (simp_all add: examples)
  have "winningTokenId winner_ABC = 7" by (simp add: examples)
  with proof_pending_submits_proof[OF h1 h2 h3 h4 h5] h1 h2 h3 h4 h5 show ?thesis
    by simp
qed

text \<open>
  C4. When the snapshot is not active, the winner is not the zero address and
  \<open>proofSubmitted = True\<close>, the cycle dispatches exactly one command and awaits its
  confirmation: \<open>ClaimPayment\<close> with the winning token id when \<open>claimed = False\<close>,
  \<open>StartAuction\<close> with the default prices when \<open>claimed = True\<close>.
\<close>

theorem proof_submitted_claims_or_restarts:
  assumes "getAuctionState c s = (Inr (currentPrice, False, timeRemaining), s1)"
    and "getWinnerInfo c s1 = (Inr wi, s2)"
    and "winner wi \<noteq> AddressZero"
    and "getAdminState c s2 = (Inr ad, s3)"
    and "proofSubmitted ad"
  shows "dispatches (trace (exec c checkAuctionStatus s)) =
           [if claimed ad then StartAuction NEW_AUCTION_START_PRICE NEW_AUCTION_END_PRICE
            else ClaimPayment (winningTokenId wi)]
       \<and> commands (trace (exec c checkAuctionStatus s)) =
           dispatch_confirm c
             (if claimed ad then StartAuction NEW_AUCTION_START_PRICE NEW_AUCTION_END_PRICE
              else ClaimPayment (winningTokenId wi)) s3 (\<lambda>s5. [])"
  using assms
  by (cases rule: checkAuctionStatus_cases[of c s])
     (auto simp add: run_simps dispatch_confirm_def split: if_split_asm)

theorem proof_submitted_claims_or_restarts_witness:
  "getAuctionState fully_settled 0 = (Inr (50, False, 0), 1)
   \<and> getWinnerInfo fully_settled 1 = (Inr winner_ABC, 2)
   \<and> winner winner_ABC \<noteq> AddressZero
   \<and> getAdminState fully_settled 2 = (Inr (settlement True True), 3)
   \<and> proofSubmitted (settlement True True)
   \<and> dispatches (trace (exec fully_settled checkAuctionStatus 0)) =
       [StartAuction NEW_AUCTION_START_PRICE NEW_AUCTION_END_PRICE]"
proof -
  have h1: "getAuctionState fully_settled 0 = (Inr (50, False, 0), 1)"
    and h2: "getWinnerInfo fully_settled 1 = (Inr winner_ABC, 2)"
    and h3: "winner winner_ABC \<noteq> AddressZero"
    and h4: "getAdminState fully_settled 2 = (Inr (settlement True True), 3)"
    and h5: "proofSubmitted (settlement True True)"
    by (simp_all add: examples)
  have "claimed (settlement True True)" by (simp add: examples)
  with proof_submitted_claims_or_restarts[OF h1 h2 h3 h4 h5] h1 h2 h3 h4 h5 show ?thesis
    by simp
qed

text \<open>
  C5, as the claim states it, fails: when the auction has ended without bids and the
  contract accepts and confirms every command, one cycle issues two commands.
\<close>

theorem two_dispatches_counterexample:
  "dispatches (trace (exec no_bids checkAuctionStatus 0)) =
     [EndAuctionNoBids, StartAuction NEW_AUCTION_START_PRICE NEW_AUCTION_END_PRICE]
   \<and> length (dispatches (trace (exec no_bids checkAuctionStatus 0))) = 2"
  by (simp add: unfold_cas examples)

text \<open>
  C5, amended. For every combination of answers of the contract, a cycle issues at most
  one command, with one exception: when the snapshot is not active, the winner read
  returns the zero address and \<open>EndAuctionNoBids\<close> is accepted and confirmed, and only
  then, the cycle issues the pair \<open>EndAuctionNoBids\<close>, \<open>StartAuction\<close> with the default
  prices (the close-then-reopen transition of an auction without bids) and nothing else.
\<close>

theorem at_most_one_or_close_reopen:
  "(length (dispatches (trace (exec c checkAuctionStatus s))) \<le> 1
    \<or> dispatches (trace (exec c checkAuctionStatus s)) =
        [EndAuctionNoBids, StartAuction NEW_AUCTION_START_PRICE NEW_AUCTION_END_PRICE])
   \<and> (dispatches (trace (exec c checkAuctionStatus s)) =
        [EndAuctionNoBids, StartAuction NEW_AUCTION_START_PRICE NEW_AUCTION_END_PRICE]
      \<longleftrightarrow>
      (\<exists>currentPrice timeRemaining s1 wi s2.
          getAuctionState c s = (Inr (currentPrice, False, timeRemaining), s1)
        \<and> getWinnerInfo c s1 = (Inr wi, s2)
        \<and> winner wi = AddressZero
        \<and> succeeded c EndAuctionNoBids s2))
   \<and> (length (dispatches (trace (exec c checkAuctionStatus s))) = 2
      \<longleftrightarrow>
      dispatches (trace (exec c checkAuctionStatus s)) =
        [EndAuctionNoBids, StartAuction NEW_AUCTION_START_PRICE NEW_AUCTION_END_PRICE])"
  by (rule checkAuctionStatus_cases[of c s]) (simp_all add: run_simps succeeded_def)

theorem at_most_one_or_close_reopen_witness:
  "length (dispatches (trace (exec payment_pending checkAuctionStatus 0))) = 1
   \<and> dispatches (trace (exec payment_pending checkAuctionStatus 0)) \<noteq>
       [EndAuctionNoBids, StartAuction NEW_AUCTION_START_PRICE NEW_AUCTION_END_PRICE]
   \<and> dispatches (trace (exec no_bids checkAuctionStatus 0)) =
       [EndAuctionNoBids, StartAuction NEW_AUCTION_START_PRICE NEW_AUCTION_END_PRICE]
   \<and> (\<exists>currentPrice timeRemaining s1 wi s2.
          getAuctionState no_bids 0 = (Inr (currentPrice, False, timeRemaining), s1)
        \<and> getWinnerInfo no_bids s1 = (Inr wi, s2)
        \<and> winner wi = AddressZero
        \<and> succeeded no_bids EndAuctionNoBids s2)
   \<and> dispatches (trace (exec no_bids_rejected checkAuctionStatus 0)) = [EndAuctionNoBids]
   \<and> \<not> succeeded no_bids_rejected EndAuctionNoBids 2"
proof -
  have one: "length (dispatches (trace (exec payment_pending checkAuctionStatus 0))) = 1"
    and pair: "dispatches (trace (exec no_bids checkAuctionStatus 0)) =
       [EndAuctionNoBids, StartAuction NEW_AUCTION_START_PRICE NEW_AUCTION_END_PRICE]"
    and alone: "dispatches (trace (exec no_bids_rejected checkAuctionStatus 0)) =
       [EndAuctionNoBids]"
    and rejected: "\<not> succeeded no_bids_rejected EndAuctionNoBids 2"
    by (simp_all add: unfold_cas examples succeeded_def)
  from at_most_one_or_close_reopen[of payment_pending 0]
    at_most_one_or_close_reopen[of no_bids 0] one pair alone rejected
  show ?thesis by auto
qed

lemma settlement_guarded_cycle:
  "settlement_guarded False (trace (exec c checkAuctionStatus s))"
  by (rule checkAuctionStatus_cases[of c s]) (simp_all add: run_simps)

lemma settlement_guarded_split:
  "settlement_guarded w (pre @ GetAdminStateCall r # post) \<Longrightarrow>
   w \<or> (\<exists>pre1 wi pre2. pre = pre1 @ GetWinnerInfoCall (Inr wi) # pre2
          \<and> winner wi \<noteq> AddressZero)"
proof (induction w pre rule: settlement_guarded.induct)
  case (2 w wi evs)
  show ?case
  proof (cases "winner wi = AddressZero")
    case True
    with 2 obtain pre1 wi' pre2 where
      "w \<or> evs = pre1 @ GetWinnerInfoCall (Inr wi') # pre2 \<and> winner wi' \<noteq> AddressZero"
      by auto
    then show ?thesis by (metis append_Cons)
  next
    case False
    then show ?thesis by (metis append_Nil)
  qed
qed (auto, (metis append_Cons)+)

text \<open>
  C8. In every run of a cycle, a \<^verbatim>\<open>getAdminState\<close> call comes after a \<^verbatim>\<open>getWinnerInfo\<close>
  call of the same run that returned a winner other than the zero address.
\<close>

theorem settlement_read_guarded:
  assumes "trace (exec c checkAuctionStatus s) = pre @ GetAdminStateCall r # post"
  shows "\<exists>pre1 wi pre2. pre = pre1 @ GetWinnerInfoCall (Inr wi) # pre2
           \<and> winner wi \<noteq> AddressZero"
  using settlement_guarded_split[of False pre r post] settlement_guarded_cycle[of c s] assms
  by simp

theorem settlement_read_guarded_witness:
  "trace (exec proof_pending checkAuctionStatus 0) =
     [GetAuctionStateCall (Inr (50, False, 0)),
      ConsoleLog [Text ''Auction is no longer active.''],
      GetWinnerInfoCall (Inr winner_ABC),
      ConsoleLog [Text ''Auction ended with a winner ('', Str ''0xABC'',
                  Text ''). Checking admin state...'']]
     @ GetAdminStateCall (Inr (settlement False False))
     # [ConsoleLog [Text ''Proof not yet submitted. Submitting proof (using 0x00 as proof)...''],
        Dispatch (SubmitProof 7 zeroProof) (Inr \<lparr>hash = ''0xfeed''\<rparr>),
        ConsoleLog (called ''submitProof'' \<lparr>hash = ''0xfeed''\<rparr>),
        Confirm \<lparr>hash = ''0xfeed''\<rparr> (Inr ())]
   \<and> (\<exists>pre1 wi pre2.
        [GetAuctionStateCall (Inr (50, False, 0)),
         ConsoleLog [Text ''Auction is no longer active.''],
         GetWinnerInfoCall (Inr winner_ABC),
         ConsoleLog [Text ''Auction ended with a winner ('', Str ''0xABC'',
                     Text ''). Checking admin state...'']]
        = pre1 @ GetWinnerInfoCall (Inr wi) # pre2 \<and> winner wi \<noteq> AddressZero)"
proof -
  have h: "trace (exec proof_pending checkAuctionStatus 0) =
     [GetAuctionStateCall (Inr (50, False, 0)),
      ConsoleLog [Text ''Auction is no longer active.''],
      GetWinnerInfoCall (Inr winner_ABC),
      ConsoleLog [Text ''Auction ended with a winner ('', Str ''0xABC'',
                  Text ''). Checking admin state...'']]
     @ GetAdminStateCall (Inr (settlement False False))
     # [ConsoleLog [Text ''Proof not yet submitted. Submitting proof (using 0x00 as proof)...''],
        Dispatch (SubmitProof 7 zeroProof) (Inr \<lparr>hash = ''0xfeed''\<rparr>),
        ConsoleLog (called ''submitProof'' \<lparr>hash = ''0xfeed''\<rparr>),
        Confirm \<lparr>hash = ''0xfeed''\<rparr> (Inr ())]"
    by (simp add: unfold_cas examples)
  from settlement_read_guarded[OF h] h show ?thesis by blast
qed

lemma redact_reads:
  "getAuctionState (redact c) s =
     (case low_state (getAuctionState c s) of
        (r, s') \<Rightarrow> (map_sum id (\<lambda>b. (0, b, 0)) r, s'))"
  "getWinnerInfo (redact c) s =
     (case low_winner (getWinnerInfo c s) of
        (r, s') \<Rightarrow>
          (map_sum id (\<lambda>(w, t). \<lparr>winner = w, winningBid = 0, winningTokenId = t\<rparr>) r, s'))"
  "getAdminState (redact c) s =
     (case low_admin (getAdminState c s) of
        (r, s') \<Rightarrow>
          (map_sum id (\<lambda>(p, cl). \<lparr>proofSubmitted = p, claimed = cl, ended = False\<rparr>) r, s'))"
  "send (redact c) = send c"
  "wait (redact c) = wait c"
  by (simp_all add: redact_def)

lemma redact_run:
  "commands (trace (exec (redact c) checkAuctionStatus s)) =
     commands (trace (exec c checkAuctionStatus s))
   \<and> dispatches (trace (exec (redact c) checkAuctionStatus s)) =
     dispatches (trace (exec c checkAuctionStatus s))
   \<and> world (exec (redact c) checkAuctionStatus s) = world (exec c checkAuctionStatus s)"
  by (rule checkAuctionStatus_cases[of c s])
     (auto simp add: unfold_cas redact_reads low_state_def low_winner_def low_admin_def
        split: if_split_asm)

text \<open>
  C10. Two contracts that agree on the decisive part of every read (the active flag, the
  winner address and token id, the proof and claim flags) and on every command and
  confirmation lead a cycle to dispatch the same commands with the same arguments, with
  the same results, and to leave the same world: the price, the time remaining and the
  winning bid are not looked at by the decision.
\<close>

theorem decision_insensitive_to_prices:
  assumes "\<And>s. low_state (getAuctionState c1 s) = low_state (getAuctionState c2 s)"
    and "\<And>s. low_winner (getWinnerInfo c1 s) = low_winner (getWinnerInfo c2 s)"
    and "\<And>s. low_admin (getAdminState c1 s) = low_admin (getAdminState c2 s)"
    and "send c1 = send c2"
    and "wait c1 = wait c2"
  shows "dispatches (trace (exec c1 checkAuctionStatus s)) =
           dispatches (trace (exec c2 checkAuctionStatus s))
       \<and> commands (trace (exec c1 checkAuctionStatus s)) =
           commands (trace (exec c2 checkAuctionStatus s))
       \<and> world (exec c1 checkAuctionStatus s) = world (exec c2 checkAuctionStatus s)"
proof -
  have "redact c1 = redact c2"
    by (simp add: redact_def assms)
  with redact_run[of c1 s] redact_run[of c2 s] show ?thesis
    by simp
qed

theorem decision_insensitive_to_prices_witness:
  "(\<forall>s. low_state (getAuctionState proof_pending s) =
         low_state (getAuctionState proof_pending_repriced s))
   \<and> (\<forall>s. low_winner (getWinnerInfo proof_pending s) =
         low_winner (getWinnerInfo proof_pending_repriced s))
   \<and> (\<forall>s. low_admin (getAdminState proof_pending s) =
         low_admin (getAdminState proof_pending_repriced s))
   \<and> send proof_pending = send proof_pending_repriced
   \<and> wait proof_pending = wait proof_pending_repriced
   \<and> fst (getAuctionState proof_pending 0) = Inr (50, False, 0)
   \<and> fst (getAuctionState proof_pending_repriced 0) = Inr (99, False, 15)
   \<and> dispatches (trace (exec proof_pending checkAuctionStatus 0)) =
       dispatches (trace (exec proof_pending_repriced checkAuctionStatus 0))
   \<and> dispatches (trace (exec proof_pending_repriced checkAuctionStatus 0)) =
       [SubmitProof 7 zeroProof]"
proof -
  have h1: "\<And>s. low_state (getAuctionState proof_pending s) =
         low_state (getAuctionState proof_pending_repriced s)"
    and h2: "\<And>s. low_winner (getWinnerInfo proof_pending s) =
         low_winner (getWinnerInfo proof_pending_repriced s)"
    and h3: "\<And>s. low_admin (getAdminState proof_pending s) =
         low_admin (getAdminState proof_pending_repriced s)"
    and h4: "send proof_pending = send proof_pending_repriced"
    and h5: "wait proof_pending = wait proof_pending_repriced"
    by (simp_all add: examples low_state_def low_winner_def low_admin_def)
  have v: "fst (getAuctionState proof_pending 0) = Inr (50, False, 0)"
    "fst (getAuctionState proof_pending_repriced 0) = Inr (99, False, 15)"
    "dispatches (trace (exec proof_pending_repriced checkAuctionStatus 0)) =
       [SubmitProof 7 zeroProof]"
    by (simp_all add: unfold_cas examples)
  from decision_insensitive_to_prices[OF h1 h2 h3 h4 h5, of 0] h1 h2 h3 h4 h5 v
  show ?thesis by simp
qed

subsection \<open>The event loop\<close>

lemma cycle_code_checkAuctionStatus: "cycle_code checkAuctionStatus"
  unfolding checkAuctionStatus_def await_getAuctionState_def await_getWinnerInfo_def
    await_getAdminState_def await_send_def await_wait_def
  by (auto simp add: try_catch_settled Let_def intro!: cycle_code.intros split: sum.split)

lemma checkAuctionStatus_awaits:
  "\<exists>k. checkAuctionStatus = Await_getAuctionState k"
  by (simp add: checkAuctionStatus_def await_getAuctionState_def)

lemma run_sync_cycle:
  assumes "cycle_code p"
  shows "interval (snd (run_sync p rt)) = interval rt"
    and "exit_code (snd (run_sync p rt)) = exit_code rt"
    and "unhandled (snd (run_sync p rt)) = unhandled rt"
    and "pending (snd (run_sync p rt)) = pending rt"
    and "listeners (snd (run_sync p rt)) = listeners rt"
    and "fst (run_sync p rt) = Some p' \<Longrightarrow> cycle_code p' \<and> awaiting p' \<noteq> None"
  using assms
  by (induction p arbitrary: rt rule: cycle_code.induct) (auto intro: cycle_code.intros)

lemma resume_cycle:
  assumes "cycle_code p" and "resume p r = Some p'"
  shows "cycle_code p'"
  using assms by (cases p rule: cycle_code.cases; cases r) auto

lemma try_catch_cycle: "cycle_code p \<Longrightarrow> try_catch p h = p"
  by (induction p rule: cycle_code.induct) simp_all

lemma try_catch_then_cycle:
  "cycle_code p \<Longrightarrow> try_catch (then_proc p q) h = then_proc p (try_catch q h)"
  by (induction p rule: cycle_code.induct) simp_all

lemma run_sync_then_cycle:
  "cycle_code p \<Longrightarrow>
   run_sync (then_proc p q) rt =
     (case run_sync p rt of
        (Some p', rt') \<Rightarrow> (Some (then_proc p' q), rt')
      | (None, rt') \<Rightarrow> run_sync q rt')"
  by (induction p arbitrary: rt rule: cycle_code.induct) simp_all

lemma resume_then:
  "awaiting p \<noteq> None \<Longrightarrow> resume (then_proc p q) r = map_option (\<lambda>p'. then_proc p' q) (resume p r)"
  by (cases p; cases r; simp)

lemma awaiting_then: "awaiting p \<noteq> None \<Longrightarrow> awaiting (then_proc p q) = awaiting p"
  by (cases p; simp)

lemma run_sync_startPolling:
  "run_sync startPolling rt =
     (None, rt\<lparr>console := console rt @ [ConsoleLog [Text ''Starting operator polling loop...'']],
               interval := Some (checkAuctionStatus, POLL_INTERVAL)\<rparr>)"
  by (simp add: startPolling_def)

lemma operator_script_eq:
  "operator_script =
     then_proc setupEventListeners
    (Console_log [Text ''Operator script is listening for events over WebSocket...'']
    (then_proc checkAuctionStatus startPolling))"
  by (simp add: operator_script_def main_def setupEventListeners_def
      try_catch_then_cycle[OF cycle_code_checkAuctionStatus] startPolling_def)

lemma starting_boot: "starting boot"
proof -
  obtain k where k: "checkAuctionStatus = Await_getAuctionState k"
    using checkAuctionStatus_awaits by blast
  have "awaiting checkAuctionStatus \<noteq> None" by (simp add: k)
  moreover have "pending boot = [then_proc checkAuctionStatus startPolling]"
    "interval boot = None" "exit_code boot = None" "unhandled boot = []"
    by (simp_all add: boot_def operator_script_eq setupEventListeners_def start_task_def
        run_sync_then_cycle[OF cycle_code_checkAuctionStatus] k)
  ultimately show ?thesis
    unfolding starting_def using cycle_code_checkAuctionStatus by blast
qed

lemma step_steady: "steady rt \<Longrightarrow> steady (step rt ev)"
proof (cases ev)
  case Tick
  assume st: "steady rt"
  obtain po rt' where r: "run_sync checkAuctionStatus rt = (po, rt')" by force
  note facts = run_sync_cycle[OF cycle_code_checkAuctionStatus, of rt, unfolded r, simplified]
  from st facts show ?thesis
    by (cases po) (auto simp: Tick steady_def start_task_def r)
next
  case (Settle i r)
  assume st: "steady rt"
  show ?thesis
  proof (cases "length (pending rt) \<le> i")
    case True
    with st show ?thesis by (simp add: Settle)
  next
    case False
    then have mem: "pending rt ! i \<in> set (pending rt)" by simp
    with st have cc: "cycle_code (pending rt ! i)" by (simp add: steady_def)
    show ?thesis
    proof (cases "resume (pending rt ! i) r")
      case None
      with st False show ?thesis by (simp add: Settle)
    next
      case (Some p)
      have ccp: "cycle_code p" using resume_cycle[OF cc Some] .
      obtain po rt' where rs: "run_sync p rt = (po, rt')" by force
      note facts = run_sync_cycle[OF ccp, of rt, unfolded rs, simplified]
      show ?thesis
      proof (cases po)
        case None
        with st False Some rs facts show ?thesis
          by (auto simp: Settle steady_def remove_nth_def dest: in_set_takeD in_set_dropD)
      next
        case (Some p')
        with st False \<open>resume (pending rt ! i) r = Some p\<close> rs facts show ?thesis
          by (auto simp: Settle steady_def dest!: set_update_subset_insert[THEN subsetD])
      qed
    qed
  qed
qed

lemma step_starting:
  assumes st: "starting rt"
  shows "starting (step rt ev) \<or> steady (step rt ev)"
proof (cases ev)
  case Tick
  with st show ?thesis by (simp add: starting_def)
next
  case (Settle i r)
  from st obtain p where p: "pending rt = [then_proc p startPolling]" "cycle_code p"
    "awaiting p \<noteq> None" and rest: "interval rt = None" "exit_code rt = None" "unhandled rt = []"
    unfolding starting_def by blast
  show ?thesis
  proof (cases i)
    case (Suc j)
    with st p show ?thesis by (simp add: Settle)
  next
    case 0
    show ?thesis
    proof (cases "resume p r")
      case None
      with st p 0 show ?thesis by (simp add: Settle resume_then)
    next
      case (Some p1)
      have cc1: "cycle_code p1" using resume_cycle[OF p(2) Some] .
      obtain po rt' where rs: "run_sync p1 rt = (po, rt')" by force
      note facts = run_sync_cycle[OF cc1, of rt, unfolded rs, simplified]
      show ?thesis
      proof (cases po)
        case None
        have "steady (step rt ev)"
          using p rest Some rs facts None
          by (simp add: Settle 0 resume_then run_sync_then_cycle[OF cc1] run_sync_startPolling
              steady_def remove_nth_def)
        then show ?thesis ..
      next
        case (Some p2)
        have "starting (step rt ev)"
          using p rest \<open>resume p r = Some p1\<close> rs facts Some
          by (auto simp add: Settle 0 resume_then run_sync_then_cycle[OF cc1] starting_def)
        then show ?thesis ..
      qed
    qed
  qed
qed

lemma run_loop_invariant:
  "starting rt \<or> steady rt \<Longrightarrow> starting (run_loop rt evs) \<or> steady (run_loop rt evs)"
  unfolding run_loop_def
  by (induction evs arbitrary: rt) (auto dest: step_starting step_steady)

lemma run_loop_steady: "steady rt \<Longrightarrow> steady (run_loop rt evs)"
  unfolding run_loop_def
  by (induction evs arbitrary: rt) (auto dest: step_steady)

lemma run_loop_append: "run_loop rt (evs @ evs') = run_loop (run_loop rt evs) evs'"
  by (simp add: run_loop_def)

lemma tick_starts_cycle:
  assumes "interval rt = Some (checkAuctionStatus, ms)" and "exit_code rt = None"
  shows "step rt Tick = rt\<lparr>pending := pending rt @ [checkAuctionStatus]\<rparr>"
proof -
  obtain k where k: "checkAuctionStatus = Await_getAuctionState k"
    using checkAuctionStatus_awaits by blast
  have "run_sync checkAuctionStatus rt = (Some checkAuctionStatus, rt)"
    by (simp add: k)
  with assms show ?thesis by (simp add: start_task_def)
qed

lemma ticks_start_cycles:
  assumes "interval rt = Some (checkAuctionStatus, ms)" and "exit_code rt = None"
  shows "run_loop rt (replicate n Tick) = rt\<lparr>pending := pending rt @ replicate n checkAuctionStatus\<rparr>"
  using assms
proof (induction n arbitrary: rt)
  case 0
  then show ?case by (simp add: run_loop_def)
next
  case (Suc n)
  have "run_loop rt (replicate (Suc n) Tick) = run_loop (step rt Tick) (replicate n Tick)"
    by (simp add: run_loop_def)
  also have "\<dots> = run_loop (rt\<lparr>pending := pending rt @ [checkAuctionStatus]\<rparr>) (replicate n Tick)"
    using tick_starts_cycle[OF Suc.prems] by simp
  also have "\<dots> = rt\<lparr>pending := pending rt @ replicate (Suc n) checkAuctionStatus\<rparr>"
    using Suc.IH[of "rt\<lparr>pending := pending rt @ [checkAuctionStatus]\<rparr>"] Suc.prems
    by (simp add: replicate_app_Cons_same)
  finally show ?case .
qed

lemma boot_pending: "pending boot = [then_proc checkAuctionStatus startPolling]"
proof -
  obtain k where k: "checkAuctionStatus = Await_getAuctionState k"
    using checkAuctionStatus_awaits by blast
  show ?thesis
    by (simp add: boot_def operator_script_eq setupEventListeners_def start_task_def
        run_sync_then_cycle[OF cycle_code_checkAuctionStatus] k)
qed

lemma awaiting_checkAuctionStatus: "awaiting checkAuctionStatus = Some CallGetAuctionState"
  by (simp add: checkAuctionStatus_def await_getAuctionState_def)

lemma started_facts:
  "pending started = []"
  "interval started = Some (checkAuctionStatus, POLL_INTERVAL)"
  "exit_code started = None"
proof -
  have first: "resume checkAuctionStatus (AuctionStateR (Inr (50, True, 0))) =
      Some (Console_log [Text ''Auction is active. Current price: '', Units 50 18,
                         Text '', Time remaining: '', Num 0, Text '' seconds''] Return)"
    by (simp add: unfold_cas)
  have b: "interval boot = None" "exit_code boot = None"
    using starting_boot by (simp_all add: starting_def)
  show "pending started = []"
    "interval started = Some (checkAuctionStatus, POLL_INTERVAL)"
    "exit_code started = None"
    by (simp_all add: started_def run_loop_def boot_pending b resume_then
        awaiting_checkAuctionStatus first run_sync_startPolling remove_nth_def)
qed

lemma never_exits:
  "exit_code (run_loop boot evs) = None" "unhandled (run_loop boot evs) = []"
  using run_loop_invariant[of boot evs] starting_boot
  by (auto simp add: starting_def steady_def)

text \<open>
  C6. Every error raised inside a cycle (a failed read, a rejected command, a failed
  confirmation) is caught: \<open>checkAuctionStatus\<close> always returns and never throws; the
  first failed call of a run is followed by the console line of the handler and nothing
  else; every run starts with a fresh \<^verbatim>\<open>getAuctionState\<close> read, whatever world the
  cycle before has left; and whatever the contract answers and whenever the timer fires,
  the process neither exits nor is left with an unhandled rejection.
\<close>

theorem errors_caught_at_cycle_boundary:
  "result (exec c checkAuctionStatus s) = Returned
   \<and> stops_at_failure (trace (exec c checkAuctionStatus s))
   \<and> (\<exists>rest. trace (exec c checkAuctionStatus s) =
         GetAuctionStateCall (fst (getAuctionState c s)) # rest)
   \<and> exit_code (run_loop boot evs) = None
   \<and> unhandled (run_loop boot evs) = []"
proof -
  have "result (exec c checkAuctionStatus s) = Returned
     \<and> stops_at_failure (trace (exec c checkAuctionStatus s))
     \<and> (\<exists>rest. trace (exec c checkAuctionStatus s) =
           GetAuctionStateCall (fst (getAuctionState c s)) # rest)"
    by (rule checkAuctionStatus_cases[of c s]) (simp_all add: run_simps)
  with never_exits[of evs] show ?thesis by simp
qed

theorem errors_caught_at_cycle_boundary_witness:
  "exec payment_pending checkAuctionStatus 0 =
     (Returned,
      [GetAuctionStateCall (Inr (50, False, 0)),
       ConsoleLog [Text ''Auction is no longer active.''],
       GetWinnerInfoCall (Inr winner_ABC),
       ConsoleLog [Text ''Auction ended with a winner ('', Str ''0xABC'',
                   Text ''). Checking admin state...''],
       GetAdminStateCall (Inr (settlement True False)),
       ConsoleLog [Text ''Proof submitted but payment not claimed. Claiming payment...''],
       Dispatch (ClaimPayment 7) (Inl (Error ''rejected'')),
       ConsoleError ''Error in checkAuctionStatus:'' (Error ''rejected'')],
      4)
   \<and> result (exec payment_pending checkAuctionStatus 0) = Returned
   \<and> stops_at_failure (trace (exec payment_pending checkAuctionStatus 0))
   \<and> dispatches (trace (exec payment_pending checkAuctionStatus 4)) = [ClaimPayment 7]
   \<and> exit_code (run_loop boot [Settle 0 (AuctionStateR (Inl (Error ''timeout'')))]) = None"
proof -
  have run: "exec payment_pending checkAuctionStatus 0 =
     (Returned,
      [GetAuctionStateCall (Inr (50, False, 0)),
       ConsoleLog [Text ''Auction is no longer active.''],
       GetWinnerInfoCall (Inr winner_ABC),
       ConsoleLog [Text ''Auction ended with a winner ('', Str ''0xABC'',
                   Text ''). Checking admin state...''],
       GetAdminStateCall (Inr (settlement True False)),
       ConsoleLog [Text ''Proof submitted but payment not claimed. Claiming payment...''],
       Dispatch (ClaimPayment 7) (Inl (Error ''rejected'')),
       ConsoleError ''Error in checkAuctionStatus:'' (Error ''rejected'')],
      4)"
    by (simp add: unfold_cas examples)
  have retry: "dispatches (trace (exec payment_pending checkAuctionStatus 4)) = [ClaimPayment 7]"
    by (simp add: unfold_cas examples)
  from errors_caught_at_cycle_boundary
    [of payment_pending 0 "[Settle 0 (AuctionStateR (Inl (Error ''timeout'')))]"] run retry
  show ?thesis by simp
qed

text \<open>
  C7, as the claim states it, fails: the timer starts a cycle at every tick. Two ticks
  with no answer in between leave two cycles suspended at their first read; answered in
  turn, both go on to submit the same proof, and two commands are in flight at once.
\<close>

theorem overlapping_cycles_counterexample:
  "map awaiting (pending (run_loop started [Tick, Tick])) =
     [Some CallGetAuctionState, Some CallGetAuctionState]
   \<and> map awaiting (pending (run_loop started
        [Tick, Tick,
         Settle 0 (AuctionStateR (Inr (50, False, 0))),
         Settle 1 (AuctionStateR (Inr (50, False, 0))),
         Settle 0 (WinnerInfoR (Inr winner_ABC)),
         Settle 1 (WinnerInfoR (Inr winner_ABC)),
         Settle 0 (AdminStateR (Inr (settlement False False))),
         Settle 1 (AdminStateR (Inr (settlement False False)))])) =
     [Some (CallSend (SubmitProof 7 zeroProof)), Some (CallSend (SubmitProof 7 zeroProof))]"
  by (simp add: run_loop_def started_facts start_task_def unfold_cas examples)

text \<open>
  C7, amended. Once the timer is registered, every tick starts a new
  \<open>checkAuctionStatus\<close> cycle, whether or not earlier cycles are still suspended: no tick
  is skipped or queued, \<open>n\<close> ticks without an answer leave \<open>n\<close> more cycles in flight,
  each waiting for its own \<^verbatim>\<open>getAuctionState\<close> read.
\<close>

theorem every_tick_starts_a_cycle:
  assumes "interval rt = Some (checkAuctionStatus, ms)"
    and "exit_code rt = None"
  shows "pending (step rt Tick) = pending rt @ [checkAuctionStatus]
       \<and> awaiting checkAuctionStatus = Some CallGetAuctionState
       \<and> pending (run_loop rt (replicate n Tick)) = pending rt @ replicate n checkAuctionStatus"
  using tick_starts_cycle[OF assms] ticks_start_cycles[OF assms, of n]
    awaiting_checkAuctionStatus
  by simp

theorem every_tick_starts_a_cycle_witness:
  "interval started = Some (checkAuctionStatus, POLL_INTERVAL)
   \<and> exit_code started = None
   \<and> pending (run_loop started (replicate 3 Tick)) =
       [checkAuctionStatus, checkAuctionStatus, checkAuctionStatus]"
  using every_tick_starts_a_cycle[OF started_facts(2) started_facts(3), of 3] started_facts
  by (simp add: numeral_3_eq_3)

text \<open>
  C9, as the claim states it, fails: the polling period is the constant 15000 ms in
  every environment; setting a variable such as \<^verbatim>\<open>POLL_INTERVAL\<close> changes nothing.
\<close>

theorem poll_interval_not_configurable_counterexample:
  "poll_interval (load_config (Map.empty(''POLL_INTERVAL'' \<mapsto> ''30000''))) = 15000
   \<and> poll_interval (load_config Map.empty) = 15000
   \<and> \<not> (\<exists>env. poll_interval (load_config env) \<noteq> 15000)
   \<and> env_30s ''POLL_INTERVAL'' = Some ''30000''
   \<and> env_30s ''PRIVATE_KEY'' \<noteq> None
   \<and> poll_interval (load_config env_30s) = 15000"
  by (simp add: load_config_def POLL_INTERVAL_def env_30s_def)

text \<open>
  C9, amended. \<open>main\<close> runs one \<open>checkAuctionStatus\<close> cycle eagerly and awaits it: while
  that cycle is in flight it is the only suspended procedure and no timer is registered
  (a tick has no effect). When it has returned, the timer is registered with
  \<open>checkAuctionStatus\<close> and the period 15000 ms, a constant that no environment variable
  changes. From then on every tick of the timer starts one more \<open>checkAuctionStatus\<close>
  cycle (\<open>n\<close> ticks start \<open>n\<close> cycles, each beginning with its own
  \<^verbatim>\<open>getAuctionState\<close> read), the timer stays registered for ever, and the process never
  exits, whatever the contract answers.
\<close>

theorem eager_cycle_then_fixed_period:
  "poll_interval (load_config env) = 15 * 1000
   \<and> pending boot = [then_proc checkAuctionStatus startPolling]
   \<and> interval boot = None
   \<and> step boot Tick = boot
   \<and> (interval (run_loop boot evs) = None \<and> length (pending (run_loop boot evs)) = 1
      \<or> interval (run_loop boot evs) = Some (checkAuctionStatus, 15 * 1000))
   \<and> (interval (run_loop boot evs) = None \<longrightarrow>
        step (run_loop boot evs) Tick = run_loop boot evs)
   \<and> (interval (run_loop boot evs) \<noteq> None \<longrightarrow>
        interval (run_loop boot (evs @ evs')) = Some (checkAuctionStatus, 15 * 1000))
   \<and> (interval (run_loop boot evs) \<noteq> None \<longrightarrow>
        step (run_loop boot evs) Tick =
          (run_loop boot evs)\<lparr>pending := pending (run_loop boot evs) @ [checkAuctionStatus]\<rparr>)
   \<and> (interval (run_loop boot evs) \<noteq> None \<longrightarrow>
        pending (run_loop boot (evs @ replicate n Tick)) =
          pending (run_loop boot evs) @ replicate n checkAuctionStatus)
   \<and> awaiting checkAuctionStatus = Some CallGetAuctionState
   \<and> exit_code (run_loop boot evs) = None"
proof -
  have b: "interval boot = None"
    using starting_boot by (simp add: starting_def)
  have phase: "starting (run_loop boot evs) \<or> steady (run_loop boot evs)"
    using run_loop_invariant[of boot evs] starting_boot by simp
  then have now: "interval (run_loop boot evs) = None \<and> length (pending (run_loop boot evs)) = 1
      \<or> interval (run_loop boot evs) = Some (checkAuctionStatus, 15 * 1000)"
    by (auto simp add: starting_def steady_def POLL_INTERVAL_def)
  have idle: "step (run_loop boot evs) Tick = run_loop boot evs"
    if "interval (run_loop boot evs) = None"
    using that never_exits(1)[of evs] by simp
  have registered: "steady (run_loop boot evs)"
    if "interval (run_loop boot evs) \<noteq> None"
    using phase that by (auto simp add: starting_def)
  have later: "interval (run_loop boot (evs @ evs')) = Some (checkAuctionStatus, 15 * 1000)"
    if "interval (run_loop boot evs) \<noteq> None"
  proof -
    from registered[OF that] have "steady (run_loop boot (evs @ evs'))"
      by (simp add: run_loop_append run_loop_steady)
    then show ?thesis by (simp add: steady_def POLL_INTERVAL_def)
  qed
  have tick: "step (run_loop boot evs) Tick =
      (run_loop boot evs)\<lparr>pending := pending (run_loop boot evs) @ [checkAuctionStatus]\<rparr>"
    and ticks: "pending (run_loop boot (evs @ replicate n Tick)) =
      pending (run_loop boot evs) @ replicate n checkAuctionStatus"
    if "interval (run_loop boot evs) \<noteq> None"
  proof -
    from registered[OF that]
    have i: "interval (run_loop boot evs) = Some (checkAuctionStatus, POLL_INTERVAL)"
      and x: "exit_code (run_loop boot evs) = None"
      by (simp_all add: steady_def)
    show "step (run_loop boot evs) Tick =
      (run_loop boot evs)\<lparr>pending := pending (run_loop boot evs) @ [checkAuctionStatus]\<rparr>"
      using tick_starts_cycle[OF i x] .
    show "pending (run_loop boot (evs @ replicate n Tick)) =
      pending (run_loop boot evs) @ replicate n checkAuctionStatus"
      using ticks_start_cycles[OF i x, of n] by (simp add: run_loop_append)
  qed
  show ?thesis
    using b boot_pending now idle later tick ticks awaiting_checkAuctionStatus
      never_exits(1)[of evs]
    by (simp add: load_config_def POLL_INTERVAL_def)
qed

theorem eager_cycle_then_fixed_period_witness:
  "interval (run_loop boot [Settle 0 (AuctionStateR (Inr (50, True, 0)))]) \<noteq> None
   \<and> interval (run_loop boot ([Settle 0 (AuctionStateR (Inr (50, True, 0)))] @ [Tick, Tick])) =
       Some (checkAuctionStatus, 15000)
   \<and> step (run_loop boot [Settle 0 (AuctionStateR (Inr (50, True, 0)))]) Tick =
       (run_loop boot [Settle 0 (AuctionStateR (Inr (50, True, 0)))])
         \<lparr>pending := [checkAuctionStatus]\<rparr>
   \<and> pending (run_loop boot
        ([Settle 0 (AuctionStateR (Inr (50, True, 0)))] @ replicate 2 Tick)) =
       [checkAuctionStatus, checkAuctionStatus]
   \<and> interval (run_loop boot []) = None
   \<and> step (run_loop boot []) Tick = run_loop boot []
   \<and> exit_code (run_loop boot [Settle 0 (AuctionStateR (Inr (50, True, 0)))]) = None
   \<and> poll_interval (load_config env_30s) = 15000"
proof -
  have reg: "interval (run_loop boot [Settle 0 (AuctionStateR (Inr (50, True, 0)))]) \<noteq> None"
    and none: "pending (run_loop boot [Settle 0 (AuctionStateR (Inr (50, True, 0)))]) = []"
    using started_facts by (simp_all add: started_def)
  have idle: "interval (run_loop boot []) = None"
    using starting_boot by (simp add: run_loop_def starting_def)
  from eager_cycle_then_fixed_period
    [of env_30s "[Settle 0 (AuctionStateR (Inr (50, True, 0)))]" "[Tick, Tick]" 2]
    eager_cycle_then_fixed_period[of env_30s "[]" "[]" 0] reg none idle
  show ?thesis by (simp add: numeral_2_eq_2 del: step.simps)
qed

end
